theory Spec2Isabelle
  imports Complex_Main "HOL-Library.Word" "HOL-Library.Signed_Division"
begin

section \<open>Observable behaviour of the three programs\<close>

text \<open>
  The repository holds three console programs: \<^verbatim>\<open>simple_console.cpp\<close> and
  \<^verbatim>\<open>crash_test.cpp\<close>, which provoke runtime faults on purpose, and
  \<^verbatim>\<open>inject_break.cpp\<close>, which breaks into a running process. Each function is
  embedded as a HOL function that returns what an observer of the process sees: the
  list of events in the order they happen, and the way the call ends.

  A C++ \<^verbatim>\<open>int\<close> is a 32-bit word; arithmetic on it wraps around, as the
  two's-complement target does, and \<open>sint\<close> reads its signed value.
\<close>

type_synonym int32 = "32 word"

text \<open>
  The value of a \<^verbatim>\<open>double\<close> division of two integers. The quotient is kept exact
  (neither the rounding to the nearest \<^verbatim>\<open>double\<close> nor the six significant digits
  of \<^verbatim>\<open>operator<<\<close> are modelled); a zero divisor gives no number, as in IEEE 754.
\<close>

datatype double = Finite real | Infinite bool | NaN

definition double_div :: "int \<Rightarrow> int \<Rightarrow> double" where
  "double_div a b =
     (if b \<noteq> 0 then Finite (real_of_int a / real_of_int b)
      else if a = 0 then NaN
      else Infinite (a < 0))"

text \<open>One \<^verbatim>\<open>std::cout << ... << ...\<close> statement is one event holding its operands.\<close>

datatype item = Str string | Num int | Dbl double | Endl

datatype event =
    Cout "item list"
  | DebugString string
  | SleepMs nat
  | CinInt int32
  | CallOpenProcess "32 word" "64 word"
  | CallDebugBreakProcess "64 word" bool
  | CallCloseHandle "64 word"

text \<open>
  How a call ends. The faults are those the processor and the operating system raise;
  \<open>Undefined\<close> marks an operation for which neither the language nor the platform
  fixes what follows (the process may fault or carry on with arbitrary data);
  \<open>AwaitingInput\<close> is a process blocked on its standard input.
\<close>

datatype access = Reading | Writing

datatype fault = AccessViolation access nat | IntegerDivideByZero | IntegerOverflow

datatype undefined_behaviour = OutOfBoundsRead

datatype 'a result =
    Returned 'a
  | Faulted fault
  | Undefined undefined_behaviour
  | AwaitingInput

type_synonym 'a exec = "event list \<times> 'a result"

definition ret :: "'a \<Rightarrow> 'a exec" where
  "ret a = ([], Returned a)"

definition emit :: "event \<Rightarrow> unit exec" where
  "emit e = ([e], Returned ())"

definition cout :: "item list \<Rightarrow> unit exec" where
  "cout items = emit (Cout items)"

text \<open>Sequencing: the second computation runs only if the first one returned.\<close>

fun bind :: "'a exec \<Rightarrow> ('a \<Rightarrow> 'b exec) \<Rightarrow> 'b exec" where
  "bind (t, Returned a) f = (case f a of (t', r) \<Rightarrow> (t @ t', r))"
| "bind (t, Faulted x) f = (t, Faulted x)"
| "bind (t, Undefined u) f = (t, Undefined u)"
| "bind (t, AwaitingInput) f = (t, AwaitingInput)"

text \<open>A block of statements, run in order up to the first one that does not return.\<close>

fun block :: "unit exec list \<Rightarrow> unit exec" where
  "block [] = ret ()"
| "block (s # ss) = bind s (\<lambda>_. block ss)"

definition discard :: "'a exec \<Rightarrow> unit exec" where
  "discard m = bind m (\<lambda>_. ret ())"

subsection \<open>Pointers, arrays and division\<close>

text \<open>
  A pointer is null or refers to a cell holding a value. Address zero is never mapped,
  so an access through the null pointer raises an access violation at address 0.
\<close>

datatype 'a pointer = nullptr | PointsTo 'a

definition load :: "'a pointer \<Rightarrow> 'a exec" where
  "load p = (case p of nullptr \<Rightarrow> ([], Faulted (AccessViolation Reading 0))
                      | PointsTo v \<Rightarrow> ret v)"

definition store :: "'a pointer \<Rightarrow> 'a \<Rightarrow> unit exec" where
  "store p v = (case p of nullptr \<Rightarrow> ([], Faulted (AccessViolation Writing 0))
                         | PointsTo _ \<Rightarrow> ret ())"

text \<open>
  \<^verbatim>\<open>a[i]\<close> on an array reached through a pointer, whose surroundings the
  function does not know: a read outside the array is undefined behaviour.
\<close>

definition subscript :: "'a list \<Rightarrow> int \<Rightarrow> 'a exec" where
  "subscript a i =
     (if 0 \<le> i \<and> i < int (length a) then ret (a ! nat i)
      else ([], Undefined OutOfBoundsRead))"

text \<open>
  \<^verbatim>\<open>a[i]\<close> on a local array of the running function. A read outside the array
  is a read of the stack around it, and the platform decides what it finds there:
  memory that holds some value, which the read then yields and the function carries on
  with, or an address that is not mapped, where the read faults.
\<close>

datatype 'a stray_read = Holds 'a | Unmapped nat

definition subscript_local :: "'a stray_read \<Rightarrow> 'a list \<Rightarrow> int \<Rightarrow> 'a exec" where
  "subscript_local stray a i =
     (if 0 \<le> i \<and> i < int (length a) then ret (a ! nat i)
      else case stray of
             Holds v \<Rightarrow> ret v
           | Unmapped address \<Rightarrow> ([], Faulted (AccessViolation Reading address)))"

text \<open>\<^verbatim>\<open>x / y\<close> on \<^verbatim>\<open>int\<close>: truncating, and a trap where the quotient does not exist.\<close>

definition int_div :: "int32 \<Rightarrow> int32 \<Rightarrow> int32 exec" where
  "int_div x y =
     (if y = 0 then ([], Faulted IntegerDivideByZero)
      else if x = - (2 ^ 31) \<and> y = - 1 then ([], Faulted IntegerOverflow)
      else ret (word_of_int (sint x sdiv sint y)))"

subsection \<open>The command line\<close>

text \<open>
  A process is started with its program name, \<^verbatim>\<open>argv[0]\<close>, and the list of its
  arguments, \<^verbatim>\<open>argv[1]\<close> onwards; \<^verbatim>\<open>argc\<close> counts both.
\<close>

definition argc :: "string list \<Rightarrow> int" where
  "argc args = 1 + int (length args)"

definition argv :: "string \<Rightarrow> string list \<Rightarrow> nat \<Rightarrow> string" where
  "argv prog args i = (prog # args) ! i"


section \<open>simple\_console.cpp\<close>

text \<open>\<^verbatim>\<open>nullPointerDereference\<close>: the null pointer is read, for printing.\<close>

definition nullPointerDereference :: "unit exec" where
  "nullPointerDereference =
     (let ptr = (nullptr :: int32 pointer) in
      block [
        cout [Str ''Attempting to dereference null pointer...'', Endl],
        bind (load ptr) (\<lambda>v. cout [Num (sint v), Endl])])"

definition divisionByZero :: "unit exec" where
  "divisionByZero =
     (let x = (5 :: int32); y = (0 :: int32) in
      block [
        cout [Str ''Attempting to divide by zero...'', Endl],
        bind (int_div x y) (\<lambda>q. cout [Num (sint q), Endl])])"

text \<open>
  \<^verbatim>\<open>invalidArrayAccess\<close>: \<^verbatim>\<open>arr[10]\<close> is read from the five-element local
  array and printed; \<open>stray\<close> is what the platform has at that place.
\<close>

definition invalidArrayAccess :: "int32 stray_read \<Rightarrow> unit exec" where
  "invalidArrayAccess stray =
     (let arr = [1, 2, 3, 4, 5 :: int32] in
      block [
        cout [Str ''Attempting to access array out of bounds...'', Endl],
        bind (subscript_local stray arr 10) (\<lambda>v. cout [Num (sint v), Endl])])"

text \<open>
  The loop of \<^verbatim>\<open>calculateStatistics\<close>, from index \<open>i\<close> with the current
  sum \<open>sm\<close>, minimum \<open>mn\<close> and maximum \<open>mx\<close>; \<open>n\<close> is the value of the
  parameter \<^verbatim>\<open>size\<close>. The sum wraps around and the comparisons are signed.
\<close>

function stats_loop ::
  "int32 list \<Rightarrow> int \<Rightarrow> int \<Rightarrow> int32 \<times> int32 \<times> int32 \<Rightarrow> (int32 \<times> int32 \<times> int32) exec"
where
  "stats_loop numbers n i (sm, mn, mx) =
     (if i < n then
        bind (subscript numbers i) (\<lambda>x.
          stats_loop numbers n (i + 1)
            (sm + x, if x <s mn then x else mn, if mx <s x then x else mx))
      else ret (sm, mn, mx))"
  by pat_completeness auto
termination
  by (relation "measure (\<lambda>(numbers, n, i, st). nat (n - i))") auto

definition calculateStatistics :: "int32 list \<Rightarrow> int \<Rightarrow> int32 exec" where
  "calculateStatistics numbers n =
     bind (subscript numbers 0) (\<lambda>first.
     bind (stats_loop numbers n 0 (0, first, first)) (\<lambda>(sm, mn, mx).
       let average = double_div (sint sm) n in
       bind (block [
               cout [Str ''Sum: '', Num (sint sm), Endl],
               cout [Str ''Min: '', Num (sint mn), Endl],
               cout [Str ''Max: '', Num (sint mx), Endl],
               cout [Str ''Average: '', Dbl average, Endl]])
            (\<lambda>_. ret sm)))"

definition printMenu :: "unit exec" where
  "printMenu =
     block [
       cout [Str ''Test App Menu:'', Endl],
       cout [Str ''1. Null Pointer Dereference'', Endl],
       cout [Str ''2. Division by Zero'', Endl],
       cout [Str ''3. Invalid Array Access'', Endl],
       cout [Str ''4. Calculate Statistics'', Endl],
       cout [Str ''5. Exit'', Endl]]"

definition runTestMode :: "unit exec" where
  "runTestMode =
     (let numbers = [40, 74, 129 :: int32];
          n = int (length numbers) in
      block [
        emit (DebugString ''Running automated test mode, waiting for 5s then starting.''),
        emit (SleepMs 5000),
        discard (calculateStatistics numbers n),
        emit (SleepMs 2000),
        nullPointerDereference])"

text \<open>
  The menu loop of \<^verbatim>\<open>main\<close>. \<open>input\<close> holds the integers that
  \<^verbatim>\<open>std::cin >> choice\<close> extracts, in order; when none is left the process waits
  for one. (A stream that fails or ends is outside this model.) \<open>stray\<close> is what
  \<^verbatim>\<open>invalidArrayAccess\<close> finds outside its array, the same place at every call.
\<close>

fun menu_loop :: "int32 stray_read \<Rightarrow> int32 list \<Rightarrow> int \<Rightarrow> int32 list \<Rightarrow> int32 exec" where
  "menu_loop stray numbers n [] =
     bind (block [printMenu, cout [Str ''Enter your choice: '']])
          (\<lambda>_. ([], AwaitingInput))"
| "menu_loop stray numbers n (choice # input) =
     bind (block [printMenu, cout [Str ''Enter your choice: ''], emit (CinInt choice)]) (\<lambda>_.
       if choice = 1 then
         bind (block [nullPointerDereference, cout [Endl]]) (\<lambda>_. menu_loop stray numbers n input)
       else if choice = 2 then
         bind (block [divisionByZero, cout [Endl]]) (\<lambda>_. menu_loop stray numbers n input)
       else if choice = 3 then
         bind (block [invalidArrayAccess stray, cout [Endl]]) (\<lambda>_. menu_loop stray numbers n input)
       else if choice = 4 then
         bind (block [discard (calculateStatistics numbers n), cout [Endl]])
              (\<lambda>_. menu_loop stray numbers n input)
       else if choice = 5 then
         ret 0
       else
         bind (block [cout [Str ''Invalid choice. Please try again.'', Endl], cout [Endl]])
              (\<lambda>_. menu_loop stray numbers n input))"

definition simple_console_main ::
  "int32 stray_read \<Rightarrow> string \<Rightarrow> string list \<Rightarrow> int32 list \<Rightarrow> int32 exec"
where
  "simple_console_main stray prog args input =
     (if argc args = 2 \<and> argv prog args 1 = ''test'' then
        bind runTestMode (\<lambda>_. ret 1)
      else
        let numbers = [1, 2, 3, 4, 5 :: int32];
            n = int (length numbers)
        in menu_loop stray numbers n input)"

section \<open>crash\_test.cpp\<close>

text \<open>\<^verbatim>\<open>cause_access_violation\<close>: 42 is written through the null pointer.\<close>

definition cause_access_violation :: "unit exec" where
  "cause_access_violation =
     (let null_ptr = (nullptr :: int32 pointer) in store null_ptr 42)"

text \<open>
  \<^verbatim>\<open>cause_stack_overflow\<close> calls itself and does nothing else. The value
  \<open>None\<close> stands for a call that never returns.
\<close>

partial_function (option) cause_stack_overflow :: "unit \<Rightarrow> unit exec option" where
  "cause_stack_overflow u = cause_stack_overflow u"

definition cause_division_by_zero :: "unit exec" where
  "cause_division_by_zero =
     (let x = (10 :: int32); y = (0 :: int32) in
      bind (int_div x y) (\<lambda>result. cout [Str ''Result: '', Num (sint result), Endl]))"

text \<open>Sequencing where a step may never return.\<close>

fun bind_opt :: "'a exec option \<Rightarrow> ('a \<Rightarrow> 'b exec option) \<Rightarrow> 'b exec option" where
  "bind_opt None f = None"
| "bind_opt (Some (t, Returned a)) f =
     (case f a of None \<Rightarrow> None | Some (t', r) \<Rightarrow> Some (t @ t', r))"
| "bind_opt (Some (t, Faulted x)) f = Some (t, Faulted x)"
| "bind_opt (Some (t, Undefined u)) f = Some (t, Undefined u)"
| "bind_opt (Some (t, AwaitingInput)) f = Some (t, AwaitingInput)"

text \<open>The \<^verbatim>\<open>switch (choice)\<close> statement of \<^verbatim>\<open>main\<close>.\<close>

definition crash_test_switch :: "int32 \<Rightarrow> unit exec option" where
  "crash_test_switch choice =
     (if choice = 1 then Some cause_access_violation
      else if choice = 2 then cause_stack_overflow ()
      else if choice = 3 then Some cause_division_by_zero
      else Some (block [
             cout [Str ''Invalid choice, defaulting to access violation'', Endl],
             cause_access_violation]))"

text \<open>
  \<^verbatim>\<open>main\<close>. The library function \<^verbatim>\<open>std::atoi\<close> is a parameter. Nothing is
  read from the standard input.
\<close>

definition crash_test_main ::
  "(string \<Rightarrow> int32) \<Rightarrow> string \<Rightarrow> string list \<Rightarrow> int32 exec option"
where
  "crash_test_main atoi prog args =
     bind_opt (Some (block [
                 cout [Str ''Crash Test Program'', Endl],
                 cout [Str ''Choose crash type:'', Endl],
                 cout [Str ''1. Access Violation'', Endl],
                 cout [Str ''2. Stack Overflow'', Endl],
                 cout [Str ''3. Division by Zero'', Endl]])) (\<lambda>_.
     let choice = (if 1 < argc args then atoi (argv prog args 1) else 1) in
     bind_opt (Some (cout [Str ''Triggering crash type '', Num (sint choice),
                           Str ''...'', Endl])) (\<lambda>_.
     bind_opt (crash_test_switch choice) (\<lambda>_.
     bind_opt (Some (cout [Str ''This line should not be reached'', Endl])) (\<lambda>_.
     Some (ret 0)))))"

section \<open>inject\_break.cpp\<close>

text \<open>
  What the program asks of its platform, as parameters: \<^verbatim>\<open>atol\<close> of the C
  library, and of the operating system the handle \<^verbatim>\<open>OpenProcess\<close> returns for a
  process identifier (\<^verbatim>\<open>NULL\<close> when it fails), whether
  \<^verbatim>\<open>DebugBreakProcess\<close> succeeds on a handle, and the code that
  \<^verbatim>\<open>GetLastError\<close> reports after each of the two calls has failed.
\<close>

type_synonym DWORD = "32 word"
type_synonym HANDLE = "64 word"

definition NULL :: HANDLE where
  "NULL = 0"

record platform =
  atol :: "string \<Rightarrow> DWORD"
  OpenProcess :: "DWORD \<Rightarrow> HANDLE"
  DebugBreakProcess :: "HANDLE \<Rightarrow> bool"
  OpenProcess_error :: "DWORD \<Rightarrow> DWORD"
  DebugBreakProcess_error :: "HANDLE \<Rightarrow> DWORD"

definition inject_break_main :: "platform \<Rightarrow> string \<Rightarrow> string list \<Rightarrow> int32 exec" where
  "inject_break_main os prog args =
     (if argc args \<noteq> 2 then
        bind (cout [Str ''Usage: '', Str (argv prog args 0), Str '' <PID>'', Endl])
             (\<lambda>_. ret 1)
      else
        let pid = atol os (argv prog args 1);
            hProcess = OpenProcess os pid
        in
        bind (emit (CallOpenProcess pid hProcess)) (\<lambda>_.
        if hProcess = NULL then
          bind (cout [Str ''Failed to open process. Error code: '',
                      Num (uint (OpenProcess_error os pid)), Endl])
               (\<lambda>_. ret 1)
        else
          let broke = DebugBreakProcess os hProcess in
          bind (emit (CallDebugBreakProcess hProcess broke)) (\<lambda>_.
          if \<not> broke then
            bind (block [
                    cout [Str ''Failed to break into process. Error code: '',
                          Num (uint (DebugBreakProcess_error os hProcess)), Endl],
                    emit (CallCloseHandle hProcess)])
                 (\<lambda>_. ret 1)
          else
            bind (emit (CallCloseHandle hProcess)) (\<lambda>_. ret 0))))"

subsection \<open>Handles held along a trace\<close>

text \<open>
  The handles a trace acquires (each \<^verbatim>\<open>OpenProcess\<close> that did not return
  \<^verbatim>\<open>NULL\<close>), those it releases, and those open once it has run.
\<close>

fun acquisitions :: "event list \<Rightarrow> HANDLE list" where
  "acquisitions [] = []"
| "acquisitions (CallOpenProcess pid h # t) =
     (if h = NULL then acquisitions t else h # acquisitions t)"
| "acquisitions (e # t) = acquisitions t"

fun releases :: "event list \<Rightarrow> HANDLE list" where
  "releases [] = []"
| "releases (CallCloseHandle h # t) = h # releases t"
| "releases (e # t) = releases t"

fun break_requests :: "event list \<Rightarrow> HANDLE list" where
  "break_requests [] = []"
| "break_requests (CallDebugBreakProcess h ok # t) = h # break_requests t"
| "break_requests (e # t) = break_requests t"

fun track :: "HANDLE list \<Rightarrow> event \<Rightarrow> HANDLE list" where
  "track hs (CallOpenProcess pid h) = (if h = NULL then hs else h # hs)"
| "track hs (CallCloseHandle h) = remove1 h hs"
| "track hs e = hs"

definition open_handles :: "event list \<Rightarrow> HANDLE list" where
  "open_handles t = foldl track [] t"

section \<open>Auxiliary definitions\<close>

text \<open>One pass of the loop body of \<^verbatim>\<open>calculateStatistics\<close> on the element \<open>x\<close>.\<close>

fun stats_step :: "int32 \<times> int32 \<times> int32 \<Rightarrow> int32 \<Rightarrow> int32 \<times> int32 \<times> int32" where
  "stats_step (sm, mn, mx) x =
     (sm + x, if x <s mn then x else mn, if mx <s x then x else mx)"

text \<open>
  For the examples: the value of the decimal digits a string starts with, which is what
  \<^verbatim>\<open>atoi\<close> and \<^verbatim>\<open>atol\<close> return for a string that does not start with white
  space or a sign and whose value fits.
\<close>

fun decimal :: "nat \<Rightarrow> string \<Rightarrow> nat" where
  "decimal v [] = v"
| "decimal v (c # cs) =
     (if 48 \<le> (of_char c :: nat) \<and> (of_char c :: nat) \<le> 57
      then decimal (10 * v + (of_char c - 48)) cs
      else v)"

text \<open>
  For the examples: a platform on which identifier 4242 names a process that accepts a
  break request, identifier 17 names one that refuses it (error 5, access denied), and
  no other identifier names a process (error 87, invalid parameter).
\<close>

definition example_platform :: platform where
  "example_platform =
     \<lparr> atol = (\<lambda>s. of_nat (decimal 0 s)),
       OpenProcess = (\<lambda>pid. if pid = 4242 then 256 else if pid = 17 then 512 else NULL),
       DebugBreakProcess = (\<lambda>h. h = 256),
       OpenProcess_error = (\<lambda>pid. 87),
       DebugBreakProcess_error = (\<lambda>h. 5) \<rparr>"

section \<open>Evaluation of the building blocks\<close>

declare stats_loop.simps [simp del]

lemmas exec_defs = ret_def emit_def cout_def discard_def

lemma cause_stack_overflow_never_returns: "cause_stack_overflow u = None"
proof (cases "cause_stack_overflow u")
  case None
  then show ?thesis .
next
  case (Some y)
  have False
  proof (rule cause_stack_overflow.raw_induct [where P = "\<lambda>_ _. False", OF _ Some])
    fix f :: "unit \<Rightarrow> unit exec option" and v r
    assume "\<And>x y. f x = Some y \<Longrightarrow> False" and "f v = Some r"
    then show False by blast
  qed
  then show ?thesis ..
qed

lemma calculateStatistics_fixed:
  "calculateStatistics [40, 74, 129] 3 =
     ([Cout [Str ''Sum: '', Num 243, Endl],
       Cout [Str ''Min: '', Num 40, Endl],
       Cout [Str ''Max: '', Num 129, Endl],
       Cout [Str ''Average: '', Dbl (Finite 81), Endl]],
      Returned 243)"
  by (simp add: calculateStatistics_def stats_loop.simps subscript_def exec_defs
      double_div_def word_sless_alt)

lemma nullPointerDereference_eval:
  "nullPointerDereference =
     ([Cout [Str ''Attempting to dereference null pointer...'', Endl]],
      Faulted (AccessViolation Reading 0))"
  by (simp add: nullPointerDereference_def load_def exec_defs)

lemma divisionByZero_eval:
  "divisionByZero =
     ([Cout [Str ''Attempting to divide by zero...'', Endl]], Faulted IntegerDivideByZero)"
  by (simp add: divisionByZero_def int_div_def exec_defs)

lemma invalidArrayAccess_continues:
  "invalidArrayAccess (Holds v) =
     ([Cout [Str ''Attempting to access array out of bounds...'', Endl],
       Cout [Num (sint v), Endl]],
      Returned ())"
  by (simp add: invalidArrayAccess_def subscript_local_def exec_defs)

lemma invalidArrayAccess_faults:
  "invalidArrayAccess (Unmapped address) =
     ([Cout [Str ''Attempting to access array out of bounds...'', Endl]],
      Faulted (AccessViolation Reading address))"
  by (simp add: invalidArrayAccess_def subscript_local_def exec_defs)

lemma cause_access_violation_eval:
  "cause_access_violation = ([], Faulted (AccessViolation Writing 0))"
  by (simp add: cause_access_violation_def store_def)

lemma cause_division_by_zero_eval:
  "cause_division_by_zero = ([], Faulted IntegerDivideByZero)"
  by (simp add: cause_division_by_zero_def int_div_def)

lemma printMenu_eval:
  "printMenu =
     ([Cout [Str ''Test App Menu:'', Endl],
       Cout [Str ''1. Null Pointer Dereference'', Endl],
       Cout [Str ''2. Division by Zero'', Endl],
       Cout [Str ''3. Invalid Array Access'', Endl],
       Cout [Str ''4. Calculate Statistics'', Endl],
       Cout [Str ''5. Exit'', Endl]],
      Returned ())"
  by (simp add: printMenu_def exec_defs)

lemma runTestMode_eval:
  "runTestMode =
     ([DebugString ''Running automated test mode, waiting for 5s then starting.'',
       SleepMs 5000,
       Cout [Str ''Sum: '', Num 243, Endl],
       Cout [Str ''Min: '', Num 40, Endl],
       Cout [Str ''Max: '', Num 129, Endl],
       Cout [Str ''Average: '', Dbl (Finite 81), Endl],
       SleepMs 2000,
       Cout [Str ''Attempting to dereference null pointer...'', Endl]],
      Faulted (AccessViolation Reading 0))"
  by (simp add: runTestMode_def calculateStatistics_fixed nullPointerDereference_eval exec_defs)

lemma test_mode_args: "argc args = 2 \<and> argv prog args 1 = ''test'' \<longleftrightarrow> args = [''test'']"
  by (cases args) (auto simp: argc_def argv_def)

section \<open>The test mode\<close>

text \<open>
  Claim C1. In test mode, \<^verbatim>\<open>runTestMode\<close> emits the debug-log signal, sleeps 5000
  ms, runs \<^verbatim>\<open>calculateStatistics\<close> on exactly 40, 74, 129, which prints sum 243,
  minimum 40, maximum 129 and average 81 and returns 243, sleeps 2000 ms, and only then
  calls \<^verbatim>\<open>nullPointerDereference\<close>, in which the run ends with an access violation
  at address 0. \<^verbatim>\<open>main\<close> started with the single argument \<^verbatim>\<open>test\<close> does exactly
  this, whatever its standard input holds.
\<close>

theorem test_mode_sequence:
  "runTestMode =
     ([DebugString ''Running automated test mode, waiting for 5s then starting.'',
       SleepMs 5000]
      @ fst (calculateStatistics [40, 74, 129] 3)
      @ [SleepMs 2000]
      @ fst nullPointerDereference,
      snd nullPointerDereference)
   \<and> calculateStatistics [40, 74, 129] 3 =
     ([Cout [Str ''Sum: '', Num 243, Endl],
       Cout [Str ''Min: '', Num 40, Endl],
       Cout [Str ''Max: '', Num 129, Endl],
       Cout [Str ''Average: '', Dbl (Finite 81), Endl]],
      Returned 243)
   \<and> nullPointerDereference =
     ([Cout [Str ''Attempting to dereference null pointer...'', Endl]],
      Faulted (AccessViolation Reading 0))
   \<and> simple_console_main stray prog [''test''] input =
       (fst runTestMode, Faulted (AccessViolation Reading 0))"
  by (simp add: runTestMode_eval calculateStatistics_fixed nullPointerDereference_eval
      simple_console_main_def argc_def argv_def)

section \<open>The fault actions\<close>

text \<open>
  Claim C4, as stated, fails: the null-dereference action of
  \<^verbatim>\<open>simple_console.cpp\<close>, the one the test mode ends with, reads through the null
  pointer and writes nothing through it.
\<close>

theorem test_mode_null_access_is_a_read:
  "snd runTestMode = Faulted (AccessViolation Reading 0)
   \<and> snd runTestMode \<noteq> Faulted (AccessViolation Writing 0)
   \<and> snd nullPointerDereference \<noteq> Faulted (AccessViolation Writing 0)"
  by (simp add: runTestMode_eval nullPointerDereference_eval)

text \<open>
  Claim C4, amended. Every null-dereference action accesses memory through the null
  pointer, and the access faults at address 0: \<^verbatim>\<open>cause_access_violation\<close> of
  \<^verbatim>\<open>crash_test.cpp\<close> writes through it, \<^verbatim>\<open>nullPointerDereference\<close> of
  \<^verbatim>\<open>simple_console.cpp\<close>, also when the test mode calls it, reads through it.
\<close>

theorem null_dereference_access:
  "cause_access_violation = store nullptr 42
   \<and> cause_access_violation = ([], Faulted (AccessViolation Writing 0))
   \<and> nullPointerDereference =
       bind (cout [Str ''Attempting to dereference null pointer...'', Endl])
            (\<lambda>_. bind (load nullptr) (\<lambda>v. cout [Num (sint v), Endl]))
   \<and> nullPointerDereference =
       ([Cout [Str ''Attempting to dereference null pointer...'', Endl]],
        Faulted (AccessViolation Reading 0))
   \<and> snd runTestMode = Faulted (AccessViolation Reading 0)"
  by (simp add: runTestMode_eval nullPointerDereference_eval cause_access_violation_eval)
     (simp add: cause_access_violation_def store_def load_def exec_defs)

text \<open>
  Claim C5. The null dereferences of both programs end in an access violation and both
  divisions by zero in an integer divide-by-zero fault, and \<^verbatim>\<open>cause_stack_overflow\<close>
  recurses without bound and has no result at all: none of these returns to its caller.
  \<^verbatim>\<open>invalidArrayAccess\<close> reads outside its array, and what follows is the
  platform's choice: where the place read is not mapped the read faults, and otherwise
  the function carries on with the stray value it found, whatever that is, prints it
  and goes back to its caller.
\<close>

theorem fault_action_outcomes:
  "snd cause_access_violation = Faulted (AccessViolation Writing 0)
   \<and> snd nullPointerDereference = Faulted (AccessViolation Reading 0)
   \<and> snd cause_division_by_zero = Faulted IntegerDivideByZero
   \<and> snd divisionByZero = Faulted IntegerDivideByZero
   \<and> cause_stack_overflow () = None
   \<and> invalidArrayAccess (Unmapped address) =
       ([Cout [Str ''Attempting to access array out of bounds...'', Endl]],
        Faulted (AccessViolation Reading address))
   \<and> invalidArrayAccess (Holds v) =
       ([Cout [Str ''Attempting to access array out of bounds...'', Endl],
         Cout [Num (sint v), Endl]],
        Returned ())"
  by (simp add: cause_access_violation_eval nullPointerDereference_eval
      cause_division_by_zero_eval divisionByZero_eval cause_stack_overflow_never_returns
      invalidArrayAccess_continues invalidArrayAccess_faults)

text \<open>
  In the menu loop, selector 3 on a platform where the stray read succeeds prints the
  stray value and the loop goes on with the next selector.
\<close>

lemma menu_loop_out_of_bounds_continues:
  "menu_loop (Holds v) numbers n (3 # input) =
     (fst printMenu @
      [Cout [Str ''Enter your choice: ''], CinInt 3,
       Cout [Str ''Attempting to access array out of bounds...'', Endl],
       Cout [Num (sint v), Endl], Cout [Endl]] @
      fst (menu_loop (Holds v) numbers n input),
      snd (menu_loop (Holds v) numbers n input))"
  by (cases "menu_loop (Holds v) numbers n input")
     (simp add: printMenu_eval invalidArrayAccess_continues exec_defs)

lemma out_of_bounds_then_quit:
  "snd (simple_console_main (Holds v) prog [] [3, 5]) = Returned 0"
  by (simp add: simple_console_main_def argc_def printMenu_eval
      invalidArrayAccess_continues exec_defs)

section \<open>Selecting a fault\<close>

lemma crash_test_switch_default:
  "choice \<notin> {1, 2, 3} \<Longrightarrow>
   crash_test_switch choice =
     Some ([Cout [Str ''Invalid choice, defaulting to access violation'', Endl]],
           Faulted (AccessViolation Writing 0))"
  by (simp add: crash_test_switch_def cause_access_violation_eval exec_defs)

lemma crash_test_switch_never_returns:
  "crash_test_switch c = None \<or> (\<exists>t f. crash_test_switch c = Some (t, Faulted f))"
  by (simp add: crash_test_switch_def cause_access_violation_eval cause_division_by_zero_eval
      cause_stack_overflow_never_returns exec_defs)

lemma crash_test_main_never_returns:
  "crash_test_main atoi prog args = None
   \<or> (\<exists>t f. crash_test_main atoi prog args = Some (t, Faulted f))"
  using crash_test_switch_never_returns
    [of "if 1 < argc args then atoi (argv prog args 1) else 1"]
  by (auto simp: crash_test_main_def exec_defs Let_def)

text \<open>
  Claim C3. In \<^verbatim>\<open>crash_test.cpp\<close> every selector other than 1, 2 and 3 takes the
  default arm of the switch, which announces the default and causes the access
  violation of selector 1; two unknown selectors behave the same; and for no selector at
  all does the switch, or \<^verbatim>\<open>main\<close>, return: each run either never returns or ends
  in a fault, never in an error exit.
\<close>

theorem unknown_selector_default:
  "choice \<notin> {1, 2, 3} \<Longrightarrow> choice' \<notin> {1, 2, 3} \<Longrightarrow>
   crash_test_switch choice =
     Some (block [cout [Str ''Invalid choice, defaulting to access violation'', Endl],
                  cause_access_violation])
   \<and> crash_test_switch choice =
     Some ([Cout [Str ''Invalid choice, defaulting to access violation'', Endl]],
           Faulted (AccessViolation Writing 0))
   \<and> crash_test_switch choice = crash_test_switch choice'
   \<and> map_option snd (crash_test_switch choice) = map_option snd (crash_test_switch 1)
   \<and> (\<forall>c. crash_test_switch c = None \<or> (\<exists>t f. crash_test_switch c = Some (t, Faulted f)))
   \<and> (\<forall>atoi prog args. crash_test_main atoi prog args = None
         \<or> (\<exists>t f. crash_test_main atoi prog args = Some (t, Faulted f)))"
  using crash_test_switch_never_returns crash_test_main_never_returns
  by (simp add: crash_test_switch_default)
     (simp add: crash_test_switch_def cause_access_violation_eval exec_defs)

theorem unknown_selector_default_witness:
  "(7 :: int32) \<notin> {1, 2, 3} \<and> (- 1 :: int32) \<notin> {1, 2, 3}
   \<and> crash_test_switch 7 =
     Some ([Cout [Str ''Invalid choice, defaulting to access violation'', Endl]],
           Faulted (AccessViolation Writing 0))
   \<and> crash_test_switch 7 = crash_test_switch (- 1)"
proof -
  have a: "(7 :: int32) \<notin> {1, 2, 3}" and b: "(- 1 :: int32) \<notin> {1, 2, 3}"
    by simp_all
  from unknown_selector_default [OF a b] a b show ?thesis
    by blast
qed

lemma menu_loop_invalid:
  "choice \<notin> {1, 2, 3, 4, 5} \<Longrightarrow>
   menu_loop stray numbers n (choice # input) =
     (fst printMenu @
      [Cout [Str ''Enter your choice: ''], CinInt choice,
       Cout [Str ''Invalid choice. Please try again.'', Endl], Cout [Endl]] @
      fst (menu_loop stray numbers n input),
      snd (menu_loop stray numbers n input))"
  by (cases "menu_loop stray numbers n input") (simp add: printMenu_eval exec_defs)

lemma menu_loop_quit:
  "menu_loop stray numbers n (5 # input) =
     (fst printMenu @ [Cout [Str ''Enter your choice: ''], CinInt 5], Returned 0)"
  by (simp add: printMenu_eval exec_defs)

lemma simple_console_main_menu:
  "args \<noteq> [''test''] \<Longrightarrow>
   simple_console_main stray prog args input = menu_loop stray [1, 2, 3, 4, 5] 5 input"
  unfolding simple_console_main_def test_mode_args by simp

text \<open>
  Claim C8. In the menu loop of \<^verbatim>\<open>simple_console.cpp\<close> a selector other than 1 to
  5 prints the menu and the prompt, reads the selector, prints
  \<^verbatim>\<open>Invalid choice. Please try again.\<close> and an empty line, and goes on with the next
  iteration on the rest of the input: no fault is triggered and the program does not
  exit. Selector 5 makes \<^verbatim>\<open>main\<close> return 0. Both hold at every iteration of the loop
  and for \<^verbatim>\<open>main\<close> outside the test mode.
\<close>

theorem interactive_invalid_selector_and_quit:
  "choice \<notin> {1, 2, 3, 4, 5} \<Longrightarrow> args \<noteq> [''test''] \<Longrightarrow>
   menu_loop stray numbers n (choice # input) =
     (fst printMenu @
      [Cout [Str ''Enter your choice: ''], CinInt choice,
       Cout [Str ''Invalid choice. Please try again.'', Endl], Cout [Endl]] @
      fst (menu_loop stray numbers n input),
      snd (menu_loop stray numbers n input))
   \<and> menu_loop stray numbers n (5 # input) =
     (fst printMenu @ [Cout [Str ''Enter your choice: ''], CinInt 5], Returned 0)
   \<and> simple_console_main stray prog args (choice # input) =
     (fst printMenu @
      [Cout [Str ''Enter your choice: ''], CinInt choice,
       Cout [Str ''Invalid choice. Please try again.'', Endl], Cout [Endl]] @
      fst (simple_console_main stray prog args input),
      snd (simple_console_main stray prog args input))
   \<and> simple_console_main stray prog args (5 # input) =
     (fst printMenu @ [Cout [Str ''Enter your choice: ''], CinInt 5], Returned 0)"
  by (simp only: simple_console_main_menu menu_loop_invalid menu_loop_quit simp_thms)

theorem interactive_invalid_selector_and_quit_witness:
  "(9 :: int32) \<notin> {1, 2, 3, 4, 5} \<and> [] \<noteq> [''test'']
   \<and> simple_console_main (Holds 7) ''simple_console'' [] [9, 5] =
     (fst printMenu @
      [Cout [Str ''Enter your choice: ''], CinInt 9,
       Cout [Str ''Invalid choice. Please try again.'', Endl], Cout [Endl]] @
      fst printMenu @ [Cout [Str ''Enter your choice: ''], CinInt 5],
      Returned 0)"
proof -
  have a: "(9 :: int32) \<notin> {1, 2, 3, 4, 5}" and b: "[] \<noteq> [''test'']"
    by simp_all
  from interactive_invalid_selector_and_quit [OF a b, of "Holds 7" _ _ "[5]" "''simple_console''"]
  have first: "simple_console_main (Holds 7) ''simple_console'' [] [9, 5] =
     (fst printMenu @
      [Cout [Str ''Enter your choice: ''], CinInt 9,
       Cout [Str ''Invalid choice. Please try again.'', Endl], Cout [Endl]] @
      fst (simple_console_main (Holds 7) ''simple_console'' [] [5]),
      snd (simple_console_main (Holds 7) ''simple_console'' [] [5]))"
    by blast
  from interactive_invalid_selector_and_quit [OF a b, of "Holds 7" _ _ "[]" "''simple_console''"]
  have second: "simple_console_main (Holds 7) ''simple_console'' [] [5] =
     (fst printMenu @ [Cout [Str ''Enter your choice: ''], CinInt 5], Returned 0)"
    by blast
  from a b first second show ?thesis
    by simp
qed

text \<open>
  Claim C9, as stated, fails: \<^verbatim>\<open>crash_test\<close> started without arguments prints its
  list of crash types, takes selector 1 without reading anything, and causes the access
  violation at once.
\<close>

theorem crash_test_without_arguments_faults:
  "crash_test_main (\<lambda>s. of_nat (decimal 0 s)) ''crash_test'' [] =
     Some ([Cout [Str ''Crash Test Program'', Endl],
            Cout [Str ''Choose crash type:'', Endl],
            Cout [Str ''1. Access Violation'', Endl],
            Cout [Str ''2. Stack Overflow'', Endl],
            Cout [Str ''3. Division by Zero'', Endl],
            Cout [Str ''Triggering crash type '', Num 1, Str ''...'', Endl]],
           Faulted (AccessViolation Writing 0))"
  by (simp add: crash_test_main_def crash_test_switch_def argc_def
      cause_access_violation_eval exec_defs)

text \<open>
  Claim C9, amended. Started without arguments, \<^verbatim>\<open>simple_console\<close> enters its menu
  loop: it runs the loop on its input, and with nothing typed it has printed the menu
  and the prompt and waits, no fault triggered. Started without arguments,
  \<^verbatim>\<open>crash_test\<close> prints its list of crash types, announces crash type 1, the first
  of the list, and causes that fault, the access violation, without reading a selector.
\<close>

theorem no_arguments_behaviour:
  "simple_console_main stray prog [] input = menu_loop stray [1, 2, 3, 4, 5] 5 input
   \<and> simple_console_main stray prog [] [] =
       (fst printMenu @ [Cout [Str ''Enter your choice: '']], AwaitingInput)
   \<and> crash_test_main atoi prog [] =
       Some ([Cout [Str ''Crash Test Program'', Endl],
              Cout [Str ''Choose crash type:'', Endl],
              Cout [Str ''1. Access Violation'', Endl],
              Cout [Str ''2. Stack Overflow'', Endl],
              Cout [Str ''3. Division by Zero'', Endl],
              Cout [Str ''Triggering crash type '', Num 1, Str ''...'', Endl]],
             Faulted (AccessViolation Writing 0))"
  by (simp add: simple_console_main_def crash_test_main_def crash_test_switch_def argc_def
      printMenu_eval cause_access_violation_eval exec_defs)

section \<open>Breaking into a process\<close>

text \<open>
  Claim C6. \<^verbatim>\<open>inject_break\<close> started with no argument, or with two or more, prints
  the usage line with its program name and returns 1; that line is all it does, so no
  process is opened.
\<close>

theorem usage_error:
  "length args \<noteq> 1 \<Longrightarrow>
   inject_break_main os prog args =
     ([Cout [Str ''Usage: '', Str prog, Str '' <PID>'', Endl]], Returned 1)
   \<and> acquisitions (fst (inject_break_main os prog args)) = []"
  by (simp add: inject_break_main_def argc_def argv_def exec_defs)

theorem usage_error_witness:
  "length ([] :: string list) \<noteq> 1 \<and> length [''4242'', ''17''] \<noteq> 1
   \<and> inject_break_main example_platform ''inject_break'' [] =
     ([Cout [Str ''Usage: '', Str ''inject_break'', Str '' <PID>'', Endl]], Returned 1)
   \<and> inject_break_main example_platform ''inject_break'' [''4242'', ''17''] =
     ([Cout [Str ''Usage: '', Str ''inject_break'', Str '' <PID>'', Endl]], Returned 1)"
  using usage_error [of "[]" example_platform "''inject_break''"]
    usage_error [of "[''4242'', ''17'']" example_platform "''inject_break''"]
  by simp

text \<open>
  Claim C7. \<^verbatim>\<open>inject_break\<close> started with one argument for which
  \<^verbatim>\<open>OpenProcess\<close> returns \<^verbatim>\<open>NULL\<close> prints the attach failure with the code of
  \<^verbatim>\<open>GetLastError\<close> and returns 1; it requests no break and closes no handle.
\<close>

theorem attach_error:
  "length args = 1 \<Longrightarrow> OpenProcess os (atol os (args ! 0)) = NULL \<Longrightarrow>
   inject_break_main os prog args =
     ([CallOpenProcess (atol os (args ! 0)) NULL,
       Cout [Str ''Failed to open process. Error code: '',
             Num (uint (OpenProcess_error os (atol os (args ! 0)))), Endl]],
      Returned 1)
   \<and> break_requests (fst (inject_break_main os prog args)) = []
   \<and> releases (fst (inject_break_main os prog args)) = []"
  by (simp add: inject_break_main_def argc_def argv_def exec_defs Let_def)

theorem attach_error_witness:
  "length [''999999''] = 1
   \<and> OpenProcess example_platform (atol example_platform ([''999999''] ! 0)) = NULL
   \<and> inject_break_main example_platform ''inject_break'' [''999999''] =
     ([CallOpenProcess 999999 NULL,
       Cout [Str ''Failed to open process. Error code: '', Num 87, Endl]],
      Returned 1)"
  using attach_error [of "[''999999'']" example_platform "''inject_break''"]
  by (simp add: example_platform_def)

text \<open>
  Claim C2. In every run of \<^verbatim>\<open>inject_break\<close> the handles acquired are exactly: the
  one \<^verbatim>\<open>OpenProcess\<close> returned, if the program was given one argument and the call
  did not return \<^verbatim>\<open>NULL\<close>, and none otherwise. The handles closed are the handles
  acquired, each once, so nothing is closed when nothing was acquired. After every
  prefix of the run at most one handle is open, and after the whole run none is.
\<close>

theorem handle_released_iff_acquired:
  "acquisitions (fst (inject_break_main os prog args)) =
     (if length args = 1 \<and> OpenProcess os (atol os (args ! 0)) \<noteq> NULL
      then [OpenProcess os (atol os (args ! 0))] else [])
   \<and> releases (fst (inject_break_main os prog args)) =
       acquisitions (fst (inject_break_main os prog args))
   \<and> (\<forall>k. length (open_handles (take k (fst (inject_break_main os prog args)))) \<le> 1)
   \<and> open_handles (fst (inject_break_main os prog args)) = []"
  by (simp add: inject_break_main_def argc_def argv_def exec_defs Let_def open_handles_def
      take_Cons')

theorem handle_released_iff_acquired_witness:
  "inject_break_main example_platform ''inject_break'' [''4242''] =
     ([CallOpenProcess 4242 256, CallDebugBreakProcess 256 True, CallCloseHandle 256],
      Returned 0)
   \<and> releases (fst (inject_break_main example_platform ''inject_break'' [''4242''])) = [256]
   \<and> inject_break_main example_platform ''inject_break'' [''17''] =
     ([CallOpenProcess 17 512, CallDebugBreakProcess 512 False,
       Cout [Str ''Failed to break into process. Error code: '', Num 5, Endl],
       CallCloseHandle 512],
      Returned 1)
   \<and> releases (fst (inject_break_main example_platform ''inject_break'' [''17''])) = [512]
   \<and> releases (fst (inject_break_main example_platform ''inject_break'' [''999999''])) = []"
proof -
  have run1: "inject_break_main example_platform ''inject_break'' [''4242''] =
     ([CallOpenProcess 4242 256, CallDebugBreakProcess 256 True, CallCloseHandle 256],
      Returned 0)"
    by (simp add: inject_break_main_def example_platform_def argc_def argv_def exec_defs
        NULL_def)
  have run2: "inject_break_main example_platform ''inject_break'' [''17''] =
     ([CallOpenProcess 17 512, CallDebugBreakProcess 512 False,
       Cout [Str ''Failed to break into process. Error code: '', Num 5, Endl],
       CallCloseHandle 512],
      Returned 1)"
    by (simp add: inject_break_main_def example_platform_def argc_def argv_def exec_defs
        NULL_def)
  have open1: "OpenProcess example_platform (atol example_platform ([''4242''] ! 0)) = 256"
    and open2: "OpenProcess example_platform (atol example_platform ([''17''] ! 0)) = 512"
    and open3: "OpenProcess example_platform (atol example_platform ([''999999''] ! 0)) = NULL"
    by (simp_all add: example_platform_def)
  from handle_released_iff_acquired [of example_platform "''inject_break''" "[''4242'']"]
    handle_released_iff_acquired [of example_platform "''inject_break''" "[''17'']"]
    handle_released_iff_acquired [of example_platform "''inject_break''" "[''999999'']"]
    run1 run2 open1 open2 open3
  show ?thesis
    by (simp add: NULL_def)
qed

section \<open>The statistics\<close>

text \<open>On an array of \<open>n\<close> elements the loop is a fold of its body over the elements.\<close>

lemma stats_loop_fold:
  "0 \<le> i \<Longrightarrow> i \<le> n \<Longrightarrow> n = int (length numbers) \<Longrightarrow>
   stats_loop numbers n i st = ret (foldl stats_step st (drop (nat i) numbers))"
proof (induction numbers n i st rule: stats_loop.induct)
  case (1 numbers n i sm mn mx)
  show ?case
  proof (cases "i < n")
    case True
    with 1 have idx: "nat i < length numbers" by simp
    have sub: "subscript numbers i = ([], Returned (numbers ! nat i))"
      using True 1 by (simp add: subscript_def ret_def)
    have dr: "drop (nat i) numbers = numbers ! nat i # drop (nat (i + 1)) numbers"
      using idx 1 by (simp add: Cons_nth_drop_Suc nat_add_distrib)
    have ih: "stats_loop numbers n (i + 1) (stats_step (sm, mn, mx) (numbers ! nat i)) =
        ret (foldl stats_step (stats_step (sm, mn, mx) (numbers ! nat i))
               (drop (nat (i + 1)) numbers))"
      using True 1 by simp
    show ?thesis
      by (subst stats_loop.simps) (use ih in \<open>simp add: True sub dr ret_def\<close>)
  next
    case False
    with 1 have "nat i = length numbers" by simp
    then show ?thesis
      by (subst stats_loop.simps) (simp add: False)
  qed
qed

lemma Min_insert_min:
  fixes a b :: int
  shows "finite S \<Longrightarrow> Min (insert (min a b) S) = Min (insert b (insert a S))"
  by (cases "S = {}") (simp_all add: min.commute min.left_commute)

lemma Max_insert_max:
  fixes a b :: int
  shows "finite S \<Longrightarrow> Max (insert (max a b) S) = Max (insert b (insert a S))"
  by (cases "S = {}") (simp_all add: max.commute max.left_commute)

lemma foldl_stats_step:
  "foldl stats_step (sm, mn, mx) xs = (sm', mn', mx') \<Longrightarrow>
   sm' = sm + sum_list xs
   \<and> sint mn' = Min (insert (sint mn) (sint ` set xs))
   \<and> sint mx' = Max (insert (sint mx) (sint ` set xs))"
proof (induction xs arbitrary: sm mn mx)
  case Nil
  then show ?case by simp
next
  case (Cons x xs)
  let ?mn = "if x <s mn then x else mn" and ?mx = "if mx <s x then x else mx"
  from Cons.prems have "foldl stats_step (sm + x, ?mn, ?mx) xs = (sm', mn', mx')"
    by simp
  from Cons.IH [OF this] have
    s: "sm' = sm + x + sum_list xs" and
    lo: "sint mn' = Min (insert (sint ?mn) (sint ` set xs))" and
    hi: "sint mx' = Max (insert (sint ?mx) (sint ` set xs))"
    by simp_all
  have "sint ?mn = min (sint x) (sint mn)" "sint ?mx = max (sint x) (sint mx)"
    by (auto simp: word_sless_alt)
  with lo hi have
    "sint mn' = Min (insert (sint mn) (sint ` set (x # xs)))"
    "sint mx' = Max (insert (sint mx) (sint ` set (x # xs)))"
    by (simp_all add: Min_insert_min Max_insert_max)
  with s show ?case by (simp add: add.assoc)
qed

lemma sum_list_word_of_int:
  "sum_list numbers = (word_of_int (\<Sum>x\<leftarrow>numbers. sint x) :: int32)"
  by (induction numbers) simp_all

lemma sint_sum_list_exact:
  fixes numbers :: "int32 list"
  assumes "- (2 ^ 31) \<le> (\<Sum>x\<leftarrow>numbers. sint x)" and "(\<Sum>x\<leftarrow>numbers. sint x) < 2 ^ 31"
  shows "sint (sum_list numbers) = (\<Sum>x\<leftarrow>numbers. sint x)"
  using assms by (simp add: sum_list_word_of_int sint_sbintrunc' signed_take_bit_int_eq_self)

lemma calculateStatistics_eval:
  assumes "numbers \<noteq> []" and "n = int (length numbers)"
  shows "calculateStatistics numbers n =
     ([Cout [Str ''Sum: '', Num (sint (sum_list numbers)), Endl],
       Cout [Str ''Min: '', Num (Min (sint ` set numbers)), Endl],
       Cout [Str ''Max: '', Num (Max (sint ` set numbers)), Endl],
       Cout [Str ''Average: '',
             Dbl (Finite (real_of_int (sint (sum_list numbers)) / real_of_int n)), Endl]],
      Returned (sum_list numbers))"
proof -
  obtain sm mn mx where
    f: "foldl stats_step (0, numbers ! 0, numbers ! 0) numbers = (sm, mn, mx)"
    by (cases "foldl stats_step (0, numbers ! 0, numbers ! 0) numbers") auto
  from assms have first: "subscript numbers 0 = ([], Returned (numbers ! 0))"
    by (simp add: subscript_def ret_def)
  have loop: "stats_loop numbers n 0 (0, numbers ! 0, numbers ! 0) = ([], Returned (sm, mn, mx))"
    using assms f stats_loop_fold [of 0 n numbers "(0, numbers ! 0, numbers ! 0)"]
    by (simp add: ret_def)
  have mem: "sint (numbers ! 0) \<in> sint ` set numbers"
    using assms by simp
  from foldl_stats_step [OF f] have
    "sm = sum_list numbers"
    "sint mn = Min (sint ` set numbers)"
    "sint mx = Max (sint ` set numbers)"
    using mem by (simp_all add: insert_absorb)
  moreover have "n \<noteq> 0" using assms by simp
  ultimately show ?thesis
    by (simp add: calculateStatistics_def first loop double_div_def ret_def cout_def emit_def)
qed

lemma calculateStatistics_empty:
  "calculateStatistics [] n = ([], Undefined OutOfBoundsRead)"
  by (simp add: calculateStatistics_def subscript_def)

text \<open>
  Claim C10, as stated, fails: on the two-element array 2147483647, 1 the function
  prints and returns -2147483648, while the sum of the elements is 2147483648, which no
  \<^verbatim>\<open>int\<close> holds.
\<close>

theorem calculateStatistics_overflow:
  "calculateStatistics [2147483647, 1] 2 =
     ([Cout [Str ''Sum: '', Num (- 2147483648), Endl],
       Cout [Str ''Min: '', Num 1, Endl],
       Cout [Str ''Max: '', Num 2147483647, Endl],
       Cout [Str ''Average: '', Dbl (Finite (- 1073741824)), Endl]],
      Returned (- 2147483648))
   \<and> sint (- 2147483648 :: int32) = - 2147483648
   \<and> (\<Sum>x\<leftarrow>[2147483647, 1 :: int32]. sint x) = 2147483648"
  by (simp add: calculateStatistics_def stats_loop.simps subscript_def exec_defs
      double_div_def word_sless_alt)

text \<open>
  Claim C10, amended. For every array of \<open>n\<close> elements, \<open>n\<close> at least 1,
  \<^verbatim>\<open>calculateStatistics\<close> returns the sum of the elements in 32-bit
  \<^verbatim>\<open>int\<close> arithmetic, that is, their sum reduced modulo \<open>2\<^sup>3\<^sup>2\<close> into the range of
  \<^verbatim>\<open>int\<close>, which is their sum whenever that lies in the range; it prints this value,
  the least element, the greatest element, and this value divided by \<open>n\<close> as the
  average.
\<close>

theorem calculateStatistics_result:
  assumes "numbers \<noteq> []" and "n = int (length numbers)"
  shows "calculateStatistics numbers n =
     ([Cout [Str ''Sum: '', Num (sint (sum_list numbers)), Endl],
       Cout [Str ''Min: '', Num (Min (sint ` set numbers)), Endl],
       Cout [Str ''Max: '', Num (Max (sint ` set numbers)), Endl],
       Cout [Str ''Average: '',
             Dbl (Finite (real_of_int (sint (sum_list numbers)) / real_of_int n)), Endl]],
      Returned (sum_list numbers))
   \<and> sum_list numbers = word_of_int (\<Sum>x\<leftarrow>numbers. sint x)
   \<and> (- (2 ^ 31) \<le> (\<Sum>x\<leftarrow>numbers. sint x) \<and> (\<Sum>x\<leftarrow>numbers. sint x) < 2 ^ 31
        \<longrightarrow> sint (sum_list numbers) = (\<Sum>x\<leftarrow>numbers. sint x))"
  using calculateStatistics_eval [OF assms] sum_list_word_of_int [of numbers]
    sint_sum_list_exact [of numbers]
  by blast

theorem calculateStatistics_result_witness:
  "[1, 2, 3, 4, 5 :: int32] \<noteq> [] \<and> (5 :: int) = int (length [1, 2, 3, 4, 5 :: int32])
   \<and> - (2 ^ 31) \<le> (\<Sum>x\<leftarrow>[1, 2, 3, 4, 5 :: int32]. sint x)
   \<and> (\<Sum>x\<leftarrow>[1, 2, 3, 4, 5 :: int32]. sint x) < 2 ^ 31
   \<and> calculateStatistics [1, 2, 3, 4, 5] 5 =
     ([Cout [Str ''Sum: '', Num 15, Endl],
       Cout [Str ''Min: '', Num 1, Endl],
       Cout [Str ''Max: '', Num 5, Endl],
       Cout [Str ''Average: '', Dbl (Finite 3), Endl]],
      Returned 15)
   \<and> sint (sum_list [1, 2, 3, 4, 5 :: int32]) = 15"
proof -
  have a: "[1, 2, 3, 4, 5 :: int32] \<noteq> []"
    and b: "(5 :: int) = int (length [1, 2, 3, 4, 5 :: int32])"
    by simp_all
  from calculateStatistics_result [OF a b] show ?thesis
    by simp
qed

end
